theory Spec2Isabelle
  imports Complex_Main
begin

section \<open>Values of the JSON request bodies\<close>

text \<open>
  The server (\<^verbatim>\<open>multiple_sensorloggers_postgresql.py\<close>) reads every request body with
  \<^verbatim>\<open>request.get_json(force=True)\<close>, so the handlers work on the Python objects the JSON
  parser builds: \<^verbatim>\<open>None\<close>, booleans, numbers, strings, lists and dicts. Numbers are kept
  as exact rationals: the rounding of IEEE doubles is not part of this model. A dict is
  the association list of its items (keys distinct, as the parser builds them).
\<close>

datatype json =
    JNull
  | JBool bool
  | JNum rat
  | JStr string
  | JArr "json list"
  | JObj "(string \<times> json) list"

datatype py_exc =
    KeyError string
  | TypeError
  | ValueError
  | AttributeError
  | BadRequest
  | OutOfRange
  | Full

text \<open>Python's truth value of an object (\<^verbatim>\<open>bool(v)\<close>), as \<^verbatim>\<open>or\<close>, \<^verbatim>\<open>not\<close>, \<^verbatim>\<open>if\<close> and \<^verbatim>\<open>any\<close> use it.\<close>

fun truthy :: "json \<Rightarrow> bool" where
  "truthy JNull = False"
| "truthy (JBool b) = b"
| "truthy (JNum n) = (n \<noteq> 0)"
| "truthy (JStr s) = (s \<noteq> [])"
| "truthy (JArr xs) = (xs \<noteq> [])"
| "truthy (JObj d) = (d \<noteq> [])"

text \<open>\<^verbatim>\<open>a or b\<close>: the first operand when it is true, the second otherwise.\<close>

definition py_or :: "json \<Rightarrow> json \<Rightarrow> json" where
  "py_or a b = (if truthy a then a else b)"

text \<open>\<^verbatim>\<open>d.get(k)\<close> on a dict: \<^verbatim>\<open>None\<close> when the key is absent.\<close>

definition dict_get :: "(string \<times> json) list \<Rightarrow> string \<Rightarrow> json" where
  "dict_get d k = (case map_of d k of None \<Rightarrow> JNull | Some v \<Rightarrow> v)"

definition has_key :: "(string \<times> json) list \<Rightarrow> string \<Rightarrow> bool" where
  "has_key d k = (k \<in> set (map fst d))"

text \<open>\<^verbatim>\<open>v[k]\<close> with a string key: only a dict has it, and only for a key it holds.\<close>

fun py_getitem :: "json \<Rightarrow> string \<Rightarrow> py_exc + json" where
  "py_getitem (JObj d) k = (case map_of d k of None \<Rightarrow> Inl (KeyError k) | Some v \<Rightarrow> Inr v)"
| "py_getitem _ k = Inl TypeError"

text \<open>\<^verbatim>\<open>for x in v\<close>: a list gives its elements, a dict its keys, a string its characters.\<close>

fun py_iter :: "json \<Rightarrow> py_exc + json list" where
  "py_iter (JArr xs) = Inr xs"
| "py_iter (JObj d) = Inr (map (\<lambda>kv. JStr (fst kv)) d)"
| "py_iter (JStr s) = Inr (map (\<lambda>c. JStr [c]) s)"
| "py_iter _ = Inl TypeError"

fun py_len :: "json \<Rightarrow> py_exc + nat" where
  "py_len (JArr xs) = Inr (length xs)"
| "py_len (JObj d) = Inr (length d)"
| "py_len (JStr s) = Inr (length s)"
| "py_len _ = Inl TypeError"

text \<open>\<^verbatim>\<open>str.lower()\<close>, on the ASCII letters.\<close>

definition lower_char :: "char \<Rightarrow> char" where
  "lower_char c =
     (case map_of (zip ''ABCDEFGHIJKLMNOPQRSTUVWXYZ'' ''abcdefghijklmnopqrstuvwxyz'') c of
        None \<Rightarrow> c
      | Some l \<Rightarrow> l)"

definition lower :: "string \<Rightarrow> string" where
  "lower s = map lower_char s"

text \<open>\<^verbatim>\<open>(v or "").lower()\<close>: a true value that is no string has no \<^verbatim>\<open>lower\<close>.\<close>

fun or_empty_lower :: "json \<Rightarrow> py_exc + string" where
  "or_empty_lower (JStr s) = Inr (lower s)"
| "or_empty_lower v = (if truthy v then Inl AttributeError else Inr [])"

text \<open>
  The built-ins \<^verbatim>\<open>float(s)\<close> and \<^verbatim>\<open>int(s)\<close> on strings are parameters of the model:
  \<open>None\<close> stands for a string they reject (or, for \<^verbatim>\<open>float\<close>, one that gives no finite
  number, which \<^verbatim>\<open>datetime.fromtimestamp\<close> rejects in turn).
\<close>

record pylib =
  float_of_str :: "string \<Rightarrow> rat option"
  int_of_str :: "string \<Rightarrow> int option"

text \<open>\<^verbatim>\<open>int(v)\<close>: a number is truncated towards zero, a boolean is 0 or 1.\<close>

definition trunc :: "rat \<Rightarrow> int" where
  "trunc x = (if 0 \<le> x then \<lfloor>x\<rfloor> else \<lceil>x\<rceil>)"

fun py_int :: "pylib \<Rightarrow> json \<Rightarrow> py_exc + int" where
  "py_int L (JNum n) = Inr (trunc n)"
| "py_int L (JBool b) = Inr (if b then 1 else 0)"
| "py_int L (JStr s) = (case int_of_str L s of None \<Rightarrow> Inl ValueError | Some i \<Rightarrow> Inr i)"
| "py_int L _ = Inl TypeError"

section \<open>Timestamps\<close>

text \<open>
  An aware \<^verbatim>\<open>datetime\<close> in UTC is the number of microseconds since the epoch.
  \<^verbatim>\<open>datetime.fromtimestamp(sec, tz=timezone.utc)\<close> rounds to the nearest microsecond, ties
  to even, and accepts the years 1 to 9999 only.
\<close>

type_synonym instant = int

definition round_half_even :: "rat \<Rightarrow> int" where
  "round_half_even x =
     (let f = \<lfloor>x\<rfloor>; d = x - of_int f
      in if d < 1 / 2 then f else if 1 / 2 < d then f + 1 else if even f then f else f + 1)"

definition MIN_US :: int where
  "MIN_US = - 62135596800000000"

definition MAX_US :: int where
  "MAX_US = 253402300799999999"

definition datetime_fromtimestamp :: "rat \<Rightarrow> py_exc + instant" where
  "datetime_fromtimestamp sec =
     (let us = round_half_even (sec * 1000000)
      in if MIN_US \<le> us \<and> us \<le> MAX_US then Inr us else Inl OutOfRange)"

text \<open>Line 107: \<^verbatim>\<open>reading.get("timestamp") or reading.get("time") or reading.get("ts")\<close>.\<close>

definition ts_field :: "(string \<times> json) list \<Rightarrow> json" where
  "ts_field d = py_or (py_or (dict_get d ''timestamp'') (dict_get d ''time'')) (dict_get d ''ts'')"

text \<open>Lines 112 to 117: the unit of the raw number, from its magnitude.\<close>

definition unit_seconds :: "rat \<Rightarrow> rat" where
  "unit_seconds ts =
     (if ts > 1000000000000000 then ts / 1000000000
      else if ts > 1000000000000 then ts / 1000
      else ts)"

fun extract_ts :: "pylib \<Rightarrow> json \<Rightarrow> py_exc + instant" where
  "extract_ts L (JObj d) =
     (case ts_field d of
        JNull \<Rightarrow> Inl (KeyError ''No timestamp'')
      | JStr s \<Rightarrow>
          (case float_of_str L s of
             None \<Rightarrow> Inl ValueError
           | Some t \<Rightarrow> datetime_fromtimestamp (unit_seconds t))
      | JNum t \<Rightarrow> datetime_fromtimestamp (unit_seconds t)
      | JBool b \<Rightarrow> datetime_fromtimestamp (unit_seconds (if b then 1 else 0))
      | JArr xs \<Rightarrow> Inl TypeError
      | JObj kv \<Rightarrow> Inl TypeError)"
| "extract_ts L _ = Inl AttributeError"

section \<open>Vector channels\<close>

fun vec3_xyz_or_pry :: "json \<Rightarrow> json" where
  "vec3_xyz_or_pry (JObj v) =
     (if has_key v ''x'' \<and> has_key v ''y'' \<and> has_key v ''z''
      then JArr [dict_get v ''x'', dict_get v ''y'', dict_get v ''z'']
      else if has_key v ''pitch'' \<and> has_key v ''roll'' \<and> has_key v ''yaw''
      then JArr [dict_get v ''pitch'', dict_get v ''roll'', dict_get v ''yaw'']
      else if has_key v ''alpha'' \<and> has_key v ''beta'' \<and> has_key v ''gamma''
      then JArr [dict_get v ''alpha'', dict_get v ''beta'', dict_get v ''gamma'']
      else JObj v)"
| "vec3_xyz_or_pry v = v"

section \<open>The state of the server\<close>

text \<open>
  The module's globals and the part of the database the handlers touch. A subject's
  configuration is a dict with the keys \<^verbatim>\<open>"activity"\<close> and \<^verbatim>\<open>"placement"\<close>, each
  of which may be missing after \<^verbatim>\<open>/map_subject\<close>; \<open>None\<close> is a missing key. An
  entry of \<^verbatim>\<open>last_values\<close> is kept as its \<^verbatim>\<open>"last_ts"\<close> (nothing reads or writes its other
  keys). A table is named by the subject it belongs to. \<open>ddl_log\<close> lists the
  \<^verbatim>\<open>CREATE TABLE IF NOT EXISTS\<close> statements sent to the database so far, \<open>tables\<close> the
  subject tables that exist. Statements sent to the database are taken to succeed.
\<close>

datatype table_name = Sensor_logs_subject int

record subject_config =
  cfg_activity :: "json option"
  cfg_placement :: "json option"

record row =
  r_table :: table_name
  r_ts :: instant
  r_subject :: int
  r_accelerometer :: json
  r_gyroscope :: json
  r_orientation :: json
  r_gravity :: json
  r_placement :: json
  r_activity :: json

record state =
  subject_configs :: "int \<rightharpoonup> subject_config"
  CURRENT_DEVICE_SUBJECT :: "string \<rightharpoonup> int"
  last_values :: "int \<rightharpoonup> instant option"
  sensor_insert_queue :: "row list"
  tables :: "table_name set"
  ddl_log :: "table_name list"

definition SAMPLE_RATE_HZ :: rat where
  "SAMPLE_RATE_HZ = 10"

definition maxsize :: nat where
  "maxsize = 5000"

definition DEVICE_SUBJECT_MAP :: "string \<rightharpoonup> int" where
  "DEVICE_SUBJECT_MAP =
     map_of
       [(lower ''f327b3b2-6e63-4e33-be0d-67895b57a9ca'', 1),
        (lower ''fa74299f-9ee8-48e7-9381-c46de923a6a5'', 2),
        (lower ''947886d2-c812-4aae-ad83-7b2e883e4efd'', 3)]"

definition create_subject_table :: "int \<Rightarrow> state \<Rightarrow> table_name \<times> state" where
  "create_subject_table subject_id s =
     (let table_name = Sensor_logs_subject subject_id
      in (table_name,
          s\<lparr>tables := insert table_name (tables s), ddl_log := ddl_log s @ [table_name]\<rparr>))"

section \<open>Responses\<close>

datatype reply =
    Status_ok_subjects "int \<rightharpoonup> subject_config"
  | Status_ok_device string int
  | Status_queued nat
  | Error_exc py_exc
  | Error_deviceId_required
  | Error_not_mapped string
  | Error_no_config int

type_synonym response = "nat \<times> reply"

section \<open>The throttle and the queue\<close>

text \<open>
  \<^verbatim>\<open>queue.Queue(maxsize=5000).put_nowait\<close> raises \<^verbatim>\<open>Full\<close> when the queue holds
  \<^verbatim>\<open>maxsize\<close> items; lines 233 to 236 catch it and print a warning.
\<close>

definition put_nowait :: "row list \<Rightarrow> row \<Rightarrow> py_exc + row list" where
  "put_nowait q item = (if 0 < maxsize \<and> maxsize \<le> length q then Inl Full else Inr (q @ [item]))"

datatype enqueue_result = Enqueued | Dropped

definition enqueue :: "row list \<Rightarrow> row \<Rightarrow> enqueue_result \<times> row list" where
  "enqueue q item = (case put_nowait q item of Inl e \<Rightarrow> (Dropped, q) | Inr q' \<Rightarrow> (Enqueued, q'))"

text \<open>
  \<^verbatim>\<open>(ts - last_ts).total_seconds() < (1.0 / SAMPLE_RATE_HZ)\<close>, on microseconds. (In doubles
  the comparison gives the same answer: both sides are correctly rounded, and the gap
  of a microsecond is far above their precision.)
\<close>

definition total_seconds :: "int \<Rightarrow> rat" where
  "total_seconds d = of_int d / 1000000"

definition throttled :: "instant option \<Rightarrow> instant \<Rightarrow> bool" where
  "throttled last_ts ts =
     (case last_ts of None \<Rightarrow> False | Some l \<Rightarrow> total_seconds (ts - l) < 1 / SAMPLE_RATE_HZ)"

text \<open>\<^verbatim>\<open>last_values[subject_id]["last_ts"]\<close>; reading it makes the default entry.\<close>

definition last_ts_of :: "state \<Rightarrow> int \<Rightarrow> instant option" where
  "last_ts_of s subject_id = (case last_values s subject_id of None \<Rightarrow> None | Some l \<Rightarrow> l)"

text \<open>
  Lines 216 to 236 (and 250 to 270): the throttle, then the row is offered to the queue.
\<close>

definition throttle_and_put :: "int \<Rightarrow> row \<Rightarrow> state \<Rightarrow> state" where
  "throttle_and_put subject_id item s =
     (let last_ts = last_ts_of s subject_id;
          s1 = s\<lparr>last_values := (last_values s)(subject_id \<mapsto> last_ts)\<rparr>
      in if throttled last_ts (r_ts item) then s1
         else s1\<lparr>last_values := (last_values s1)(subject_id \<mapsto> Some (r_ts item)),
                 sensor_insert_queue := snd (enqueue (sensor_insert_queue s1) item)\<rparr>)"

section \<open>Normalising a payload\<close>

record channels =
  accelerometer :: json
  gyroscope :: json
  orientation :: json
  gravity :: json

text \<open>\<^verbatim>\<open>any([acc, gyro, ori, grav])\<close>.\<close>

definition any_channel :: "channels \<Rightarrow> bool" where
  "any_channel ch \<longleftrightarrow>
     truthy (accelerometer ch) \<or> truthy (gyroscope ch) \<or> truthy (orientation ch) \<or> truthy (gravity ch)"

text \<open>What line 190 and lines 187, 188 fix for the whole request.\<close>

record ctx =
  c_table :: table_name
  c_subject :: int
  c_placement :: json
  c_activity :: json

definition make_row :: "ctx \<Rightarrow> instant \<Rightarrow> channels \<Rightarrow> row" where
  "make_row c ts ch =
     \<lparr>r_table = c_table c, r_ts = ts, r_subject = c_subject c,
      r_accelerometer = accelerometer ch, r_gyroscope = gyroscope ch,
      r_orientation = orientation ch, r_gravity = gravity ch,
      r_placement = c_placement c, r_activity = c_activity c\<rparr>"

text \<open>
  Lines 212 to 236 (and 247 to 270): a record with no channel is skipped, any other goes
  through the throttle to the queue.
\<close>

definition emit :: "ctx \<Rightarrow> instant \<Rightarrow> channels \<Rightarrow> state \<Rightarrow> state" where
  "emit c ts ch s =
     (if \<not> any_channel ch then s else throttle_and_put (c_subject c) (make_row c ts ch) s)"

subsection \<open>Style A: each reading is a full dict\<close>

definition reading_channels :: "(string \<times> json) list \<Rightarrow> channels" where
  "reading_channels d =
     \<lparr>accelerometer = vec3_xyz_or_pry (dict_get d ''accelerometer''),
      gyroscope = vec3_xyz_or_pry (dict_get d ''gyroscope''),
      orientation = vec3_xyz_or_pry (dict_get d ''orientation''),
      gravity = vec3_xyz_or_pry (dict_get d ''gravity'')\<rparr>"

text \<open>
  The loop of lines 240 to 270. An exception leaves the loop with the state as the
  earlier readings made it.
\<close>

fun style_a_loop :: "pylib \<Rightarrow> ctx \<Rightarrow> json list \<Rightarrow> state \<Rightarrow> py_exc option \<times> state" where
  "style_a_loop L c [] s = (None, s)"
| "style_a_loop L c (reading # rest) s =
     (case extract_ts L reading of
        Inl e \<Rightarrow> (Some e, s)
      | Inr ts \<Rightarrow>
          (case reading of
             JObj d \<Rightarrow> style_a_loop L c rest (emit c ts (reading_channels d) s)
           | _ \<Rightarrow> (Some AttributeError, s)))"

subsection \<open>Style B: samples tagged by sensor name, grouped by timestamp\<close>

text \<open>\<^verbatim>\<open>by_time\<close> is a dict keyed by the derived instant; it keeps the order of insertion.\<close>

type_synonym by_time = "(instant \<times> channels) list"

definition empty_entry :: channels where
  "empty_entry = \<lparr>accelerometer = JNull, gyroscope = JNull, orientation = JNull, gravity = JNull\<rparr>"

definition setdefault :: "by_time \<Rightarrow> instant \<Rightarrow> by_time" where
  "setdefault bt ts = (if ts \<in> set (map fst bt) then bt else bt @ [(ts, empty_entry)])"

text \<open>\<^verbatim>\<open>if name in entry: entry[name] = ...\<close>: the entry has the four channel names as keys.\<close>

definition set_channel :: "string \<Rightarrow> json \<Rightarrow> channels \<Rightarrow> channels" where
  "set_channel name v e =
     (if name = ''accelerometer'' then e\<lparr>accelerometer := v\<rparr>
      else if name = ''gyroscope'' then e\<lparr>gyroscope := v\<rparr>
      else if name = ''orientation'' then e\<lparr>orientation := v\<rparr>
      else if name = ''gravity'' then e\<lparr>gravity := v\<rparr>
      else e)"

definition update_entry :: "by_time \<Rightarrow> instant \<Rightarrow> (channels \<Rightarrow> channels) \<Rightarrow> by_time" where
  "update_entry bt ts f = map (\<lambda>kv. if fst kv = ts then (fst kv, f (snd kv)) else kv) bt"

text \<open>Line 207: \<^verbatim>\<open>r.get("values") or r.get("value") or r\<close>.\<close>

definition vals_of :: "(string \<times> json) list \<Rightarrow> json" where
  "vals_of d = py_or (py_or (dict_get d ''values'') (dict_get d ''value'')) (JObj d)"


text \<open>The loop of lines 198 to 209.\<close>

fun by_time_loop :: "pylib \<Rightarrow> json list \<Rightarrow> by_time \<Rightarrow> py_exc + by_time" where
  "by_time_loop L [] bt = Inr bt"
| "by_time_loop L (r # rest) bt =
     (case extract_ts L r of
        Inl e \<Rightarrow> Inl e
      | Inr ts \<Rightarrow>
          (case r of
             JObj d \<Rightarrow>
               (case or_empty_lower (dict_get d ''name'') of
                  Inl e \<Rightarrow> Inl e
                | Inr name \<Rightarrow>
                    by_time_loop L rest
                      (update_entry (setdefault bt ts) ts
                         (set_channel name (vec3_xyz_or_pry (vals_of d)))))
           | _ \<Rightarrow> Inl AttributeError))"

text \<open>The loop of lines 211 to 236.\<close>

fun emit_loop :: "ctx \<Rightarrow> by_time \<Rightarrow> state \<Rightarrow> state" where
  "emit_loop c [] s = s"
| "emit_loop c (kv # rest) s = emit_loop c rest (emit c (fst kv) (snd kv) s)"

subsection \<open>Which style a payload is\<close>

text \<open>
  Line 196: \<^verbatim>\<open>payload and isinstance(payload[0], dict) and "name" in payload[0]\<close>. A payload
  that is true but is no list or string has no element 0.
\<close>

fun is_style_b :: "json \<Rightarrow> py_exc + bool" where
  "is_style_b (JArr []) = Inr False"
| "is_style_b (JArr (JObj d # rest)) = Inr (has_key d ''name'')"
| "is_style_b (JArr (x # rest)) = Inr False"
| "is_style_b (JStr s) = Inr False"
| "is_style_b (JObj []) = Inr False"
| "is_style_b (JObj (kv # rest)) = Inl (KeyError ''0'')"
| "is_style_b JNull = Inr False"
| "is_style_b (JBool b) = (if b then Inl TypeError else Inr False)"
| "is_style_b (JNum n) = (if n \<noteq> 0 then Inl TypeError else Inr False)"

section \<open>The handlers\<close>

subsection \<open>POST /data\<close>

text \<open>Line 272.\<close>

definition queued :: "json \<Rightarrow> state \<Rightarrow> response \<times> state" where
  "queued payload s =
     (case py_len payload of
        Inl e \<Rightarrow> ((500, Error_exc e), s)
      | Inr n \<Rightarrow> ((200, Status_queued n), s))"

text \<open>Lines 196 to 272.\<close>

definition process_payload :: "pylib \<Rightarrow> ctx \<Rightarrow> json \<Rightarrow> state \<Rightarrow> response \<times> state" where
  "process_payload L c payload s =
     (case is_style_b payload of
        Inl e \<Rightarrow> ((500, Error_exc e), s)
      | Inr True \<Rightarrow>
          (case py_iter payload of
             Inl e \<Rightarrow> ((500, Error_exc e), s)
           | Inr rs \<Rightarrow>
               (case by_time_loop L rs [] of
                  Inl e \<Rightarrow> ((500, Error_exc e), s)
                | Inr bt \<Rightarrow> queued payload (emit_loop c bt s)))
      | Inr False \<Rightarrow>
          (case py_iter payload of
             Inl e \<Rightarrow> ((500, Error_exc e), s)
           | Inr rs \<Rightarrow>
               (case style_a_loop L c rs s of
                  (Some e, s') \<Rightarrow> ((500, Error_exc e), s')
                | (None, s') \<Rightarrow> queued payload s')))"

text \<open>Lines 177 to 179: the mapping set by \<^verbatim>\<open>/map_subject\<close>, then the static table.\<close>

definition resolve :: "state \<Rightarrow> string \<Rightarrow> int option" where
  "resolve s device_id =
     (case CURRENT_DEVICE_SUBJECT s device_id of
        None \<Rightarrow> DEVICE_SUBJECT_MAP device_id
      | Some subject_id \<Rightarrow> Some subject_id)"

text \<open>\<^verbatim>\<open>data.get("payload", [])\<close>.\<close>

definition payload_of :: "(string \<times> json) list \<Rightarrow> json" where
  "payload_of d = (if has_key d ''payload'' then dict_get d ''payload'' else JArr [])"

text \<open>Lines 183 to 190, once the subject is known.\<close>

definition with_subject :: "pylib \<Rightarrow> int \<Rightarrow> json \<Rightarrow> state \<Rightarrow> response \<times> state" where
  "with_subject L subject_id payload s =
     (case subject_configs s subject_id of
        None \<Rightarrow> ((400, Error_no_config subject_id), s)
      | Some cfg \<Rightarrow>
          if cfg_activity cfg = None \<and> cfg_placement cfg = None
          then ((400, Error_no_config subject_id), s)
          else
            (case cfg_activity cfg of
               None \<Rightarrow> ((500, Error_exc (KeyError ''activity'')), s)
             | Some activity \<Rightarrow>
                 (case cfg_placement cfg of
                    None \<Rightarrow> ((500, Error_exc (KeyError ''placement'')), s)
                  | Some placement \<Rightarrow>
                      (let (table_name, s1) = create_subject_table subject_id s
                       in process_payload L
                            \<lparr>c_table = table_name, c_subject = subject_id,
                             c_placement = placement, c_activity = activity\<rparr>
                            payload s1))))"

definition receive_data :: "pylib \<Rightarrow> json option \<Rightarrow> state \<Rightarrow> response \<times> state" where
  "receive_data L body s =
     (case body of
        None \<Rightarrow> ((500, Error_exc BadRequest), s)
      | Some (JObj d) \<Rightarrow>
          (case or_empty_lower (dict_get d ''deviceId'') of
             Inl e \<Rightarrow> ((500, Error_exc e), s)
           | Inr device_id \<Rightarrow>
               (case resolve s device_id of
                  None \<Rightarrow> ((400, Error_not_mapped device_id), s)
                | Some subject_id \<Rightarrow> with_subject L subject_id (payload_of d) s))
      | Some _ \<Rightarrow> ((500, Error_exc AttributeError), s))"

subsection \<open>POST /configure\<close>

text \<open>One round of the loop of lines 138 to 144.\<close>

definition configure_entry :: "pylib \<Rightarrow> json \<Rightarrow> state \<Rightarrow> py_exc + state" where
  "configure_entry L c s =
     (case py_getitem c ''subject_id'' of
        Inl e \<Rightarrow> Inl e
      | Inr v \<Rightarrow>
          (case py_int L v of
             Inl e \<Rightarrow> Inl e
           | Inr sid \<Rightarrow>
               (case py_getitem c ''activity'' of
                  Inl e \<Rightarrow> Inl e
                | Inr a \<Rightarrow>
                    (case py_getitem c ''placement'' of
                       Inl e \<Rightarrow> Inl e
                     | Inr p \<Rightarrow>
                         Inr (snd (create_subject_table sid
                           (s\<lparr>subject_configs := (subject_configs s)
                                (sid \<mapsto> \<lparr>cfg_activity = Some a, cfg_placement = Some p\<rparr>)\<rparr>)))))))"

fun configure_loop :: "pylib \<Rightarrow> json list \<Rightarrow> state \<Rightarrow> py_exc option \<times> state" where
  "configure_loop L [] s = (None, s)"
| "configure_loop L (c # cs) s =
     (case configure_entry L c s of
        Inl e \<Rightarrow> (Some e, s)
      | Inr s' \<Rightarrow> configure_loop L cs s')"

definition configure_subjects :: "pylib \<Rightarrow> json option \<Rightarrow> state \<Rightarrow> response \<times> state" where
  "configure_subjects L body s =
     (case body of
        None \<Rightarrow> ((400, Error_exc BadRequest), s)
      | Some cfgs \<Rightarrow>
          (case py_iter cfgs of
             Inl e \<Rightarrow> ((400, Error_exc e), s)
           | Inr cs \<Rightarrow>
               (case configure_loop L cs s of
                  (Some e, s') \<Rightarrow> ((400, Error_exc e), s')
                | (None, s') \<Rightarrow> ((200, Status_ok_subjects (subject_configs s')), s'))))"

subsection \<open>POST /map_subject\<close>

text \<open>Lines 159 to 163: the fields given and true are merged into the subject's dict.\<close>

definition merge_config :: "int \<Rightarrow> json \<Rightarrow> json \<Rightarrow> state \<Rightarrow> state" where
  "merge_config sid act plc s =
     (if truthy act \<or> truthy plc
      then
        (let cfg0 = (case subject_configs s sid of
                       None \<Rightarrow> \<lparr>cfg_activity = None, cfg_placement = None\<rparr>
                     | Some cfg \<Rightarrow> cfg);
             cfg1 = (if truthy act then cfg0\<lparr>cfg_activity := Some act\<rparr> else cfg0);
             cfg2 = (if truthy plc then cfg1\<lparr>cfg_placement := Some plc\<rparr> else cfg1)
         in s\<lparr>subject_configs := (subject_configs s)(sid \<mapsto> cfg2)\<rparr>)
      else s)"

definition map_subject :: "pylib \<Rightarrow> json option \<Rightarrow> state \<Rightarrow> response \<times> state" where
  "map_subject L body s =
     (case body of
        None \<Rightarrow> ((500, Error_exc BadRequest), s)
      | Some (JObj b) \<Rightarrow>
          (case or_empty_lower (dict_get b ''deviceId'') of
             Inl e \<Rightarrow> ((500, Error_exc e), s)
           | Inr dev \<Rightarrow>
               (case py_getitem (JObj b) ''subject_id'' of
                  Inl e \<Rightarrow> ((500, Error_exc e), s)
                | Inr v \<Rightarrow>
                    (case py_int L v of
                       Inl e \<Rightarrow> ((500, Error_exc e), s)
                     | Inr sid \<Rightarrow>
                         if dev = [] then ((400, Error_deviceId_required), s)
                         else
                           (let s1 = s\<lparr>CURRENT_DEVICE_SUBJECT := (CURRENT_DEVICE_SUBJECT s)(dev \<mapsto> sid)\<rparr>;
                                s2 = merge_config sid (dict_get b ''activity'') (dict_get b ''placement'') s1;
                                s3 = snd (create_subject_table sid s2)
                            in ((200, Status_ok_device dev sid), s3)))))
      | Some _ \<Rightarrow> ((500, Error_exc AttributeError), s))"

subsection \<open>The records a payload gives, before the throttle\<close>


definition style_b_records :: "pylib \<Rightarrow> json list \<Rightarrow> py_exc + (instant \<times> channels) list" where
  "style_b_records L rs =
     (case by_time_loop L rs [] of
        Inl e \<Rightarrow> Inl e
      | Inr bt \<Rightarrow> Inr (filter (\<lambda>kv. any_channel (snd kv)) bt))"

text \<open>Offering records to the throttle and the queue one after the other.\<close>

fun offer_all :: "ctx \<Rightarrow> (instant \<times> channels) list \<Rightarrow> state \<Rightarrow> state" where
  "offer_all c [] s = s"
| "offer_all c (kv # rest) s =
     offer_all c rest (throttle_and_put (c_subject c) (make_row c (fst kv) (snd kv)) s)"

subsection \<open>The throttle as the specification words it\<close>

text \<open>
  Section 4.3 of the specification: a record is admitted iff no prior record was
  admitted for that subject, or the elapsed time since the last admitted record's
  timestamp is at least \<open>1 / sample_rate_hz\<close> seconds. \<open>prev\<close> lists the timestamps
  admitted so far for the subject, oldest first; \<open>spec_run\<close> feeds a sequence of
  timestamps through this rule.
\<close>

definition spec_admit :: "instant list \<Rightarrow> instant \<Rightarrow> bool" where
  "spec_admit prev ts \<longleftrightarrow> prev = [] \<or> 1 / SAMPLE_RATE_HZ \<le> total_seconds (ts - last prev)"

fun spec_run :: "instant list \<Rightarrow> instant list \<Rightarrow> instant list" where
  "spec_run prev [] = prev"
| "spec_run prev (ts # rest) = spec_run (if spec_admit prev ts then prev @ [ts] else prev) rest"

section \<open>Runs of the server\<close>

text \<open>
  The states the server can be in: it starts with an empty queue (whatever \<^verbatim>\<open>main\<close> has
  configured from the command line), every request is handled by its handler, and the
  writer thread takes rows from the head of the queue, one \<^verbatim>\<open>get\<close> at a time.
\<close>

inductive reachable :: "pylib \<Rightarrow> state \<Rightarrow> bool" for L :: pylib where
  start: "sensor_insert_queue s = [] \<Longrightarrow> reachable L s"
| configure: "reachable L s \<Longrightarrow> reachable L (snd (configure_subjects L body s))"
| map_device: "reachable L s \<Longrightarrow> reachable L (snd (map_subject L body s))"
| data: "reachable L s \<Longrightarrow> reachable L (snd (receive_data L body s))"
| writer_get:
    "reachable L s \<Longrightarrow> sensor_insert_queue s = item # q \<Longrightarrow>
     reachable L (s\<lparr>sensor_insert_queue := q\<rparr>)"

text \<open>A channel of a row is present when it is not \<^verbatim>\<open>None\<close>.\<close>

definition row_present :: "row \<Rightarrow> bool" where
  "row_present r \<longleftrightarrow>
     r_accelerometer r \<noteq> JNull \<or> r_gyroscope r \<noteq> JNull \<or>
     r_orientation r \<noteq> JNull \<or> r_gravity r \<noteq> JNull"

definition row_any :: "row \<Rightarrow> bool" where
  "row_any r \<longleftrightarrow>
     truthy (r_accelerometer r) \<or> truthy (r_gyroscope r) \<or>
     truthy (r_orientation r) \<or> truthy (r_gravity r)"

text \<open>A reading that has none of the three timestamp fields.\<close>

definition lacks_timestamp :: "json \<Rightarrow> bool" where
  "lacks_timestamp r =
     (case r of
        JObj d \<Rightarrow> \<not> has_key d ''timestamp'' \<and> \<not> has_key d ''time'' \<and> \<not> has_key d ''ts''
      | _ \<Rightarrow> False)"



section \<open>Sample inputs\<close>

text \<open>A library whose \<^verbatim>\<open>float\<close> and \<^verbatim>\<open>int\<close> reject every string.\<close>

definition plain_lib :: pylib where
  "plain_lib = \<lparr>float_of_str = (\<lambda>s. None), int_of_str = (\<lambda>s. None)\<rparr>"

definition sample_row :: row where
  "sample_row =
     \<lparr>r_table = Sensor_logs_subject 1, r_ts = 0, r_subject = 1,
      r_accelerometer = JArr [JNum 1, JNum 2, JNum 3], r_gyroscope = JNull,
      r_orientation = JNull, r_gravity = JNull,
      r_placement = JStr ''back'', r_activity = JStr ''idle''\<rparr>"

text \<open>A server that has just started, with nothing configured.\<close>

definition fresh :: state where
  "fresh =
     \<lparr>subject_configs = Map.empty, CURRENT_DEVICE_SUBJECT = Map.empty,
      last_values = Map.empty, sensor_insert_queue = [], tables = {}, ddl_log = []\<rparr>"

text \<open>
  The session of the specification's scenario: device \<^verbatim>\<open>abc\<close> is mapped to subject 7,
  which is idle with the phone on the back.
\<close>

definition session :: state where
  "session =
     \<lparr>subject_configs =
        [7 \<mapsto> \<lparr>cfg_activity = Some (JStr ''idle''), cfg_placement = Some (JStr ''back'')\<rparr>],
      CURRENT_DEVICE_SUBJECT = [''abc'' \<mapsto> 7],
      last_values = Map.empty, sensor_insert_queue = [],
      tables = {Sensor_logs_subject 7}, ddl_log = []\<rparr>"

definition xyz :: json where
  "xyz = JObj [(''x'', JNum 1), (''y'', JNum 2), (''z'', JNum 3)]"

text \<open>A Style A reading with an accelerometer sample, and one with a gyroscope sample.\<close>

definition acc_reading :: "rat \<Rightarrow> json" where
  "acc_reading t = JObj [(''timestamp'', JNum t), (''accelerometer'', xyz)]"

definition gyro_reading :: "rat \<Rightarrow> json" where
  "gyro_reading t = JObj [(''timestamp'', JNum t), (''gyroscope'', xyz)]"

text \<open>A Style B sample.\<close>

definition sample :: "string \<Rightarrow> rat \<Rightarrow> json" where
  "sample name t = JObj [(''name'', JStr name), (''time'', JNum t), (''values'', xyz)]"

definition data_body :: "string \<Rightarrow> json \<Rightarrow> json option" where
  "data_body device payload = Some (JObj [(''deviceId'', JStr device), (''payload'', payload)])"

definition subject_entry :: "rat \<Rightarrow> json" where
  "subject_entry sid =
     JObj [(''subject_id'', JNum sid), (''activity'', JStr ''idle''), (''placement'', JStr ''back'')]"

definition session_ctx :: ctx where
  "session_ctx =
     \<lparr>c_table = Sensor_logs_subject 7, c_subject = 7,
      c_placement = JStr ''back'', c_activity = JStr ''idle''\<rparr>"

text \<open>The row that \<open>acc_reading 1700000000\<close> gives in that session.\<close>

definition session_row :: row where
  "session_row =
     \<lparr>r_table = Sensor_logs_subject 7, r_ts = 1700000000000000, r_subject = 7,
      r_accelerometer = JArr [JNum 1, JNum 2, JNum 3], r_gyroscope = JNull,
      r_orientation = JNull, r_gravity = JNull,
      r_placement = JStr ''back'', r_activity = JStr ''idle''\<rparr>"

text \<open>The same session with the queue at its capacity.\<close>

definition full_session :: state where
  "full_session = session\<lparr>sensor_insert_queue := replicate 5000 session_row\<rparr>"

section \<open>Evaluation and basic facts\<close>

lemmas eval_defs = receive_data_def with_subject_def process_payload_def queued_def resolve_def
  payload_of_def data_body_def session_def fresh_def acc_reading_def gyro_reading_def xyz_def
  dict_get_def has_key_def lower_def lower_char_def create_subject_table_def
  ts_field_def py_or_def unit_seconds_def datetime_fromtimestamp_def round_half_even_def
  MIN_US_def MAX_US_def reading_channels_def any_channel_def emit_def throttle_and_put_def
  last_ts_of_def throttled_def total_seconds_def SAMPLE_RATE_HZ_def enqueue_def put_nowait_def
  maxsize_def make_row_def DEVICE_SUBJECT_MAP_def Let_def sample_def subject_entry_def
  configure_subjects_def configure_entry_def map_subject_def merge_config_def trunc_def
  setdefault_def set_channel_def update_entry_def empty_entry_def style_b_records_def
  vals_of_def
  session_ctx_def session_row_def sample_row_def

lemma create_subject_table_eq:
  "create_subject_table sid s =
     (Sensor_logs_subject sid,
      s\<lparr>tables := insert (Sensor_logs_subject sid) (tables s),
        ddl_log := ddl_log s @ [Sensor_logs_subject sid]\<rparr>)"
  by (simp add: create_subject_table_def Let_def)

lemma queued_snd: "snd (queued payload s) = s"
  by (simp add: queued_def split: sum.splits)

section \<open>The bounded queue\<close>

text \<open>
  C4. When the queue already holds its 5000 rows, offering one more gives \<open>Dropped\<close>:
  the queue is returned as it was, so the new row is discarded, no older row is evicted
  and the size stays 5000. \<open>enqueue\<close> is a total function: the producer gets its
  answer without waiting.
\<close>

theorem full_queue_drops:
  assumes "length q = 5000"
  shows "enqueue q item = (Dropped, q) \<and> length (snd (enqueue q item)) = 5000"
  using assms by (simp add: enqueue_def put_nowait_def maxsize_def)

theorem full_queue_drops_witness:
  "length (replicate 5000 sample_row) = 5000 \<and>
   enqueue (replicate 5000 sample_row) sample_row = (Dropped, replicate 5000 sample_row) \<and>
   length (snd (enqueue (replicate 5000 sample_row) sample_row)) = 5000"
  using full_queue_drops [of "replicate 5000 sample_row" sample_row] by simp

section \<open>The throttle\<close>

lemma throttled_iff:
  "\<not> throttled lst ts \<longleftrightarrow>
     lst = None \<or> (\<exists>l. lst = Some l \<and> 1 / SAMPLE_RATE_HZ \<le> total_seconds (ts - l))"
  by (cases lst) (auto simp: throttled_def)

text \<open>
  A run of records of one subject through lines 216 to 236, from a state in which the
  queue holds the rows admitted so far and has room for the rest: the rows that reach
  the queue are those the specification's rule admits.
\<close>

lemma throttled_spec:
  "throttled (if prev = [] then None else Some (last prev)) ts \<longleftrightarrow> \<not> spec_admit prev ts"
  by (auto simp: throttled_def spec_admit_def)

lemma offer_all_spec:
  assumes "last_ts_of s (c_subject c) = (if prev = [] then None else Some (last prev))"
    and "map r_ts (sensor_insert_queue s) = prev"
    and "length prev + length recs \<le> maxsize"
  shows "map r_ts (sensor_insert_queue (offer_all c recs s)) = spec_run prev (map fst recs)"
  using assms
proof (induction recs arbitrary: s prev)
  case Nil
  then show ?case by simp
next
  case (Cons kv recs)
  let ?item = "make_row c (fst kv) (snd kv)"
  let ?s' = "throttle_and_put (c_subject c) ?item s"
  let ?prev' = "if spec_admit prev (fst kv) then prev @ [fst kv] else prev"
  have ts: "r_ts ?item = fst kv" by (simp add: make_row_def)
  have th: "throttled (last_ts_of s (c_subject c)) (fst kv) \<longleftrightarrow> \<not> spec_admit prev (fst kv)"
    using Cons.prems(1) throttled_spec [of prev "fst kv"] by simp
  have len: "length (sensor_insert_queue s) < maxsize"
  proof -
    have "length (sensor_insert_queue s) = length prev"
      using Cons.prems(2) by (metis length_map)
    with Cons.prems(3) show ?thesis by simp
  qed
  have q: "map r_ts (sensor_insert_queue ?s') = ?prev'"
    using th ts len Cons.prems(2)
    by (simp add: throttle_and_put_def Let_def enqueue_def put_nowait_def)
  have l: "last_ts_of ?s' (c_subject c) = (if ?prev' = [] then None else Some (last ?prev'))"
    using th ts Cons.prems(1)
    by (auto simp: throttle_and_put_def Let_def last_ts_of_def)
  have n: "length ?prev' + length recs \<le> maxsize"
    using Cons.prems(3) by simp
  from Cons.IH [OF l q n] show ?case by simp
qed

text \<open>
  C3. With \<open>last_ts\<close> the subject's \<^verbatim>\<open>last_values[subject_id]["last_ts"]\<close>, a record is
  admitted (offered to the queue) exactly when \<open>last_ts\<close> is \<^verbatim>\<open>None\<close> or the record's
  timestamp minus \<open>last_ts\<close> is at least \<open>1 / SAMPLE_RATE_HZ\<close> seconds; an admission
  sets \<open>last_ts\<close> to the record's timestamp, a rejection leaves it, and no other
  subject's value changes. Started with no record admitted for the subject, a sequence
  of records is admitted just as the specification's rule says, which compares with the
  last admitted timestamp. The rate is 10 Hz: from a fresh server, a record at 0.00 s
  followed by one at 0.05 s puts only the first in the queue; followed by one at 0.15 s,
  both.
\<close>

theorem throttle_admits:
  fixes s :: state and subject_id :: int and item :: row
  shows
    "(let admitted =
            (last_ts_of s subject_id = None \<or>
             (\<exists>l. last_ts_of s subject_id = Some l \<and>
                  1 / SAMPLE_RATE_HZ \<le> total_seconds (r_ts item - l)));
          s' = throttle_and_put subject_id item s
      in sensor_insert_queue s' =
           (if admitted then snd (enqueue (sensor_insert_queue s) item)
            else sensor_insert_queue s) \<and>
         last_ts_of s' subject_id =
           (if admitted then Some (r_ts item) else last_ts_of s subject_id) \<and>
         (\<forall>other. other \<noteq> subject_id \<longrightarrow> last_ts_of s' other = last_ts_of s other)) \<and>
     (last_ts_of s (c_subject c) = None \<and> sensor_insert_queue s = [] \<and> length recs \<le> 5000 \<longrightarrow>
        map r_ts (sensor_insert_queue (offer_all c recs s)) = spec_run [] (map fst recs)) \<and>
     SAMPLE_RATE_HZ = 10 \<and>
     total_seconds 50000 = 5 / 100 \<and> total_seconds 150000 = 15 / 100 \<and>
     sensor_insert_queue
       (throttle_and_put 1 (sample_row\<lparr>r_ts := 50000\<rparr>) (throttle_and_put 1 sample_row fresh)) =
       [sample_row] \<and>
     sensor_insert_queue
       (throttle_and_put 1 (sample_row\<lparr>r_ts := 150000\<rparr>) (throttle_and_put 1 sample_row fresh)) =
       [sample_row, sample_row\<lparr>r_ts := 150000\<rparr>]"
proof -
  have adm: "\<not> throttled (last_ts_of s subject_id) (r_ts item) \<longleftrightarrow>
      (last_ts_of s subject_id = None \<or>
       (\<exists>l. last_ts_of s subject_id = Some l \<and>
            1 / SAMPLE_RATE_HZ \<le> total_seconds (r_ts item - l)))"
    by (rule throttled_iff)
  have q: "sensor_insert_queue (throttle_and_put subject_id item s) =
      (if \<not> throttled (last_ts_of s subject_id) (r_ts item)
       then snd (enqueue (sensor_insert_queue s) item) else sensor_insert_queue s)"
    by (simp add: throttle_and_put_def Let_def)
  have l: "last_ts_of (throttle_and_put subject_id item s) subject_id =
      (if \<not> throttled (last_ts_of s subject_id) (r_ts item)
       then Some (r_ts item) else last_ts_of s subject_id)"
    by (simp add: throttle_and_put_def Let_def last_ts_of_def)
  have o: "\<forall>other. other \<noteq> subject_id \<longrightarrow>
      last_ts_of (throttle_and_put subject_id item s) other = last_ts_of s other"
    by (simp add: throttle_and_put_def Let_def last_ts_of_def)
  have r: "last_ts_of s (c_subject c) = None \<and> sensor_insert_queue s = [] \<and> length recs \<le> 5000 \<longrightarrow>
      map r_ts (sensor_insert_queue (offer_all c recs s)) = spec_run [] (map fst recs)"
    using offer_all_spec [of s c "[]" recs] by (simp add: maxsize_def)
  have ex1: "sensor_insert_queue
       (throttle_and_put 1 (sample_row\<lparr>r_ts := 50000\<rparr>) (throttle_and_put 1 sample_row fresh)) =
       [sample_row]"
    by (simp add: throttle_and_put_def Let_def last_ts_of_def fresh_def sample_row_def
        throttled_def total_seconds_def SAMPLE_RATE_HZ_def enqueue_def put_nowait_def maxsize_def)
  have ex2: "sensor_insert_queue
       (throttle_and_put 1 (sample_row\<lparr>r_ts := 150000\<rparr>) (throttle_and_put 1 sample_row fresh)) =
       [sample_row, sample_row\<lparr>r_ts := 150000\<rparr>]"
    by (simp add: throttle_and_put_def Let_def last_ts_of_def fresh_def sample_row_def
        throttled_def total_seconds_def SAMPLE_RATE_HZ_def enqueue_def put_nowait_def maxsize_def)
  have u: "total_seconds 50000 = 5 / 100 \<and> total_seconds 150000 = 15 / 100"
    by (simp add: total_seconds_def)
  show ?thesis
    unfolding Let_def using adm q l o r ex1 ex2 u by (simp add: SAMPLE_RATE_HZ_def)
qed

theorem throttle_admits_witness:
  "last_ts_of fresh 1 = None \<and>
   sensor_insert_queue (throttle_and_put 1 sample_row fresh) = [sample_row] \<and>
   last_ts_of (throttle_and_put 1 sample_row fresh) 1 = Some 0 \<and>
   (2::int) \<noteq> 1 \<and>
   last_ts_of (throttle_and_put 1 sample_row fresh) 2 = last_ts_of fresh 2 \<and>
   last_ts_of session (c_subject session_ctx) = None \<and>
   sensor_insert_queue session = [] \<and>
   length [(0 :: int, empty_entry), (50000, empty_entry), (150000, empty_entry)] \<le> 5000 \<and>
   map r_ts (sensor_insert_queue (offer_all session_ctx
     [(0, empty_entry), (50000, empty_entry), (150000, empty_entry)] session)) = [0, 150000]"
proof -
  let ?recs = "[(0 :: int, empty_entry), (50000, empty_entry), (150000, empty_entry)]"
  have h: "last_ts_of session (c_subject session_ctx) = None \<and> sensor_insert_queue session = [] \<and>
      length ?recs \<le> 5000"
    by (simp add: last_ts_of_def session_def session_ctx_def)
  have sp: "spec_run [] (map fst ?recs) = [0, 150000]"
    by (simp add: spec_admit_def total_seconds_def SAMPLE_RATE_HZ_def)
  from throttle_admits [of session 1 sample_row session_ctx ?recs] h sp
  have run: "map r_ts (sensor_insert_queue (offer_all session_ctx ?recs session)) = [0, 150000]"
    by simp
  from throttle_admits [of fresh 1 sample_row session_ctx ?recs]
  have one: "last_ts_of fresh 1 = None \<and>
      sensor_insert_queue (throttle_and_put 1 sample_row fresh) = [sample_row] \<and>
      last_ts_of (throttle_and_put 1 sample_row fresh) 1 = Some 0 \<and>
      last_ts_of (throttle_and_put 1 sample_row fresh) 2 = last_ts_of fresh 2"
    by (simp add: Let_def last_ts_of_def fresh_def sample_row_def enqueue_def put_nowait_def
        maxsize_def)
  from h run one show ?thesis by simp
qed

section \<open>Timestamps of readings\<close>

text \<open>
  Whatever number line 107 picks is converted by its magnitude: nanoseconds above
  \<open>10\<^sup>1\<^sup>5\<close>, milliseconds above \<open>10\<^sup>1\<^sup>2\<close>, seconds otherwise.
\<close>

lemma extract_ts_numeric:
  assumes "ts_field d = JNum t"
  shows "extract_ts L (JObj d) =
     datetime_fromtimestamp
       (if 10 ^ 15 < t then t / 10 ^ 9 else if 10 ^ 12 < t then t / 10 ^ 3 else t)"
  using assms by (simp add: unit_seconds_def)

text \<open>
  C6. Line 107 chains the three fields with \<^verbatim>\<open>or\<close>, so a \<^verbatim>\<open>"timestamp"\<close> (or
  \<^verbatim>\<open>"time"\<close>) of 0 counts as missing: the reading \<^verbatim>\<open>{"timestamp": 0, "accelerometer":
  {"x": 1, "y": 2, "z": 3}}\<close> raises \<^verbatim>\<open>KeyError("No timestamp")\<close> and the request is
  answered 500, where the unit inference takes 0 as seconds and gives the epoch. The
  same 0 under the key \<^verbatim>\<open>"ts"\<close>, the last of the chain, does give the epoch.
\<close>

theorem zero_timestamp_raises:
  "extract_ts plain_lib (acc_reading 0) = Inl (KeyError ''No timestamp'') \<and>
   datetime_fromtimestamp (unit_seconds 0) = Inr 0 \<and>
   extract_ts plain_lib (JObj [(''ts'', JNum 0), (''accelerometer'', xyz)]) = Inr 0 \<and>
   fst (receive_data plain_lib (data_body ''abc'' (JArr [acc_reading 0])) session) =
     (500, Error_exc (KeyError ''No timestamp''))"
  by (simp add: eval_defs)

section \<open>Rows in the queue\<close>

lemma row_any_present: "row_any r \<Longrightarrow> row_present r"
  by (auto simp: row_any_def row_present_def)

lemma make_row_any: "any_channel ch \<Longrightarrow> row_any (make_row c ts ch)"
  by (simp add: any_channel_def row_any_def make_row_def)

lemma enqueue_set: "set (snd (enqueue q item)) \<subseteq> insert item (set q)"
  by (auto simp: enqueue_def put_nowait_def)

lemma throttle_and_put_set:
  "set (sensor_insert_queue (throttle_and_put sid item s)) \<subseteq> insert item (set (sensor_insert_queue s))"
  using enqueue_set [of "sensor_insert_queue s" item]
  by (auto simp: throttle_and_put_def Let_def)

lemma emit_ok:
  assumes "\<forall>r\<in>set (sensor_insert_queue s). row_any r"
  shows "\<forall>r\<in>set (sensor_insert_queue (emit c ts ch s)). row_any r"
  using assms throttle_and_put_set [of "c_subject c" "make_row c ts ch" s] make_row_any [of ch c ts]
  by (auto simp: emit_def)

lemma style_a_loop_ok:
  assumes "\<forall>r\<in>set (sensor_insert_queue s). row_any r"
  shows "\<forall>r\<in>set (sensor_insert_queue (snd (style_a_loop L c rs s))). row_any r"
  using assms
proof (induction rs arbitrary: s)
  case Nil
  then show ?case by simp
next
  case (Cons r rs)
  show ?case
  proof (cases "extract_ts L r")
    case (Inl e)
    with Cons.prems show ?thesis by simp
  next
    case (Inr ts)
    show ?thesis
    proof (cases r)
      case (JObj d)
      from Cons.prems
      have "\<forall>r\<in>set (sensor_insert_queue (emit c ts (reading_channels d) s)). row_any r"
        by (rule emit_ok)
      then have "\<forall>r\<in>set (sensor_insert_queue
          (snd (style_a_loop L c rs (emit c ts (reading_channels d) s)))). row_any r"
        by (rule Cons.IH)
      with Inr JObj show ?thesis by simp
    qed (use Inr Cons.prems in simp_all)
  qed
qed

lemma style_a_loop_ok':
  "style_a_loop L c rs s = (e, s') \<Longrightarrow> \<forall>r\<in>set (sensor_insert_queue s). row_any r \<Longrightarrow>
   \<forall>r\<in>set (sensor_insert_queue s'). row_any r"
  using style_a_loop_ok [of s L c rs] by simp

lemma emit_loop_ok:
  "\<forall>r\<in>set (sensor_insert_queue s). row_any r \<Longrightarrow>
   \<forall>r\<in>set (sensor_insert_queue (emit_loop c bt s)). row_any r"
proof (induction bt arbitrary: s)
  case Nil
  then show ?case by simp
next
  case (Cons kv bt)
  from Cons.prems have "\<forall>r\<in>set (sensor_insert_queue (emit c (fst kv) (snd kv) s)). row_any r"
    by (rule emit_ok)
  then show ?case using Cons.IH by simp
qed

lemma process_payload_ok:
  "\<forall>r\<in>set (sensor_insert_queue s). row_any r \<Longrightarrow>
   \<forall>r\<in>set (sensor_insert_queue (snd (process_payload L c payload s))). row_any r"
  by (auto simp: process_payload_def queued_snd
      split: sum.splits bool.splits prod.splits option.splits
      dest: style_a_loop_ok' emit_loop_ok)

lemma with_subject_ok:
  assumes "\<forall>r\<in>set (sensor_insert_queue s). row_any r"
  shows "\<forall>r\<in>set (sensor_insert_queue (snd (with_subject L sid payload s))). row_any r"
proof -
  let ?s1 = "s\<lparr>tables := insert (Sensor_logs_subject sid) (tables s),
    ddl_log := ddl_log s @ [Sensor_logs_subject sid]\<rparr>"
  have "\<forall>r\<in>set (sensor_insert_queue ?s1). row_any r"
    using assms by simp
  then have "\<forall>r\<in>set (sensor_insert_queue (snd (process_payload L c payload ?s1))). row_any r" for c
    by (rule process_payload_ok)
  then show ?thesis
    using assms
    by (simp add: with_subject_def create_subject_table_eq split: option.splits)
qed

lemma receive_data_ok:
  "\<forall>r\<in>set (sensor_insert_queue s). row_any r \<Longrightarrow>
   \<forall>r\<in>set (sensor_insert_queue (snd (receive_data L body s))). row_any r"
  by (auto simp: receive_data_def split: option.splits json.splits sum.splits
      dest: with_subject_ok)

lemma configure_entry_queue:
  "configure_entry L c s = Inr s' \<Longrightarrow> sensor_insert_queue s' = sensor_insert_queue s"
  by (auto simp: configure_entry_def create_subject_table_eq split: sum.splits)

lemma configure_loop_queue:
  "sensor_insert_queue (snd (configure_loop L cs s)) = sensor_insert_queue s"
  by (induction cs arbitrary: s) (auto split: sum.splits dest: configure_entry_queue)

lemma configure_loop_queue':
  "configure_loop L cs s = (e, s') \<Longrightarrow> sensor_insert_queue s' = sensor_insert_queue s"
  using configure_loop_queue [of L cs s] by simp

lemma configure_subjects_queue:
  "sensor_insert_queue (snd (configure_subjects L body s)) = sensor_insert_queue s"
  by (auto simp: configure_subjects_def split: option.splits sum.splits prod.splits
      dest: configure_loop_queue')

lemma map_subject_queue:
  "sensor_insert_queue (snd (map_subject L body s)) = sensor_insert_queue s"
  by (auto simp: map_subject_def merge_config_def create_subject_table_eq Let_def
      split: option.splits json.splits sum.splits)

lemma reachable_queue_ok: "reachable L s \<Longrightarrow> \<forall>r\<in>set (sensor_insert_queue s). row_any r"
proof (induction rule: reachable.induct)
  case (start s)
  then show ?case by simp
next
  case (configure s body)
  then show ?case by (simp add: configure_subjects_queue)
next
  case (map_device s body)
  then show ?case by (simp add: map_subject_queue)
next
  case (data s body)
  then show ?case by (simp add: receive_data_ok)
next
  case (writer_get s item q)
  then show ?case by simp
qed

text \<open>
  C7. In every state the server can reach, each row in the queue has at least one of
  its four channels present (indeed true, which is what line 213 and line 248 test);
  and a record whose four channels are all missing or empty is skipped: handling it
  changes nothing, whatever the request, the subject and the state.
\<close>

theorem queued_rows_have_a_channel:
  "(reachable L s \<longrightarrow> (\<forall>r\<in>set (sensor_insert_queue s). row_any r \<and> row_present r)) \<and>
   (\<not> any_channel ch \<longrightarrow> emit c ts ch s' = s')"
  using reachable_queue_ok [of L s] by (auto simp: row_any_present emit_def)

theorem queued_rows_have_a_channel_witness:
  "reachable plain_lib
     (snd (receive_data plain_lib (data_body ''ABC'' (JArr [acc_reading 1700000000])) session)) \<and>
   session_row \<in> set (sensor_insert_queue
     (snd (receive_data plain_lib (data_body ''ABC'' (JArr [acc_reading 1700000000])) session))) \<and>
   row_any session_row \<and> row_present session_row \<and>
   \<not> any_channel empty_entry \<and>
   emit session_ctx 5 empty_entry session = session"
proof -
  let ?s = "snd (receive_data plain_lib (data_body ''ABC'' (JArr [acc_reading 1700000000])) session)"
  have "reachable plain_lib session"
    by (rule reachable.start) (simp add: session_def)
  then have r: "reachable plain_lib ?s"
    by (rule reachable.data)
  have q: "sensor_insert_queue ?s = [session_row]"
    by (simp add: eval_defs)
  have n: "\<not> any_channel empty_entry"
    by (simp add: any_channel_def empty_entry_def)
  from queued_rows_have_a_channel [of plain_lib ?s empty_entry session_ctx 5 session] r q n
  show ?thesis by simp
qed

section \<open>The count a request reports\<close>

lemma process_payload_200:
  "fst (process_payload L c payload s) = (200, rep) \<Longrightarrow>
   \<exists>n. py_len payload = Inr n \<and> rep = Status_queued n"
  by (auto simp: process_payload_def queued_def split: sum.splits bool.splits prod.splits option.splits)

lemma with_subject_200:
  "fst (with_subject L sid payload s) = (200, rep) \<Longrightarrow>
   \<exists>n. py_len payload = Inr n \<and> rep = Status_queued n"
  by (auto simp: with_subject_def create_subject_table_eq split: option.splits if_splits
      dest: process_payload_200)

lemma receive_data_200:
  "fst (receive_data L body s) = (200, rep) \<Longrightarrow>
   \<exists>d n. body = Some (JObj d) \<and> py_len (payload_of d) = Inr n \<and> rep = Status_queued n"
  by (auto simp: receive_data_def split: option.splits json.splits sum.splits
      dest: with_subject_200)

text \<open>
  C9. A request answered 200 reports \<^verbatim>\<open>len(payload)\<close>: the length of the payload array,
  whatever became of its readings. A reading with no channel is counted and not
  enqueued (count 1, queue still empty); two readings 0 s apart are counted twice and
  one is throttled; two samples merged into one record are counted twice; a reading
  dropped by the full queue is counted.
\<close>

theorem reported_count_is_payload_length:
  "(fst (receive_data L body s) = (200, rep) \<longrightarrow>
      (\<exists>d n. body = Some (JObj d) \<and> py_len (payload_of d) = Inr n \<and> rep = Status_queued n \<and>
         (\<forall>rs. payload_of d = JArr rs \<longrightarrow> n = length rs))) \<and>
   fst (receive_data plain_lib (data_body ''abc'' (JArr [JObj [(''timestamp'', JNum 5)]])) session) =
     (200, Status_queued 1) \<and>
   sensor_insert_queue
     (snd (receive_data plain_lib (data_body ''abc'' (JArr [JObj [(''timestamp'', JNum 5)]])) session)) = [] \<and>
   fst (receive_data plain_lib
     (data_body ''abc'' (JArr [acc_reading 1700000000, gyro_reading 1700000000])) session) =
     (200, Status_queued 2) \<and>
   sensor_insert_queue (snd (receive_data plain_lib
     (data_body ''abc'' (JArr [acc_reading 1700000000, gyro_reading 1700000000])) session)) =
     [session_row] \<and>
   fst (receive_data plain_lib
     (data_body ''abc'' (JArr [sample ''accelerometer'' 5, sample ''gyroscope'' 5])) session) =
     (200, Status_queued 2) \<and>
   length (sensor_insert_queue (snd (receive_data plain_lib
     (data_body ''abc'' (JArr [sample ''accelerometer'' 5, sample ''gyroscope'' 5])) session))) = 1 \<and>
   fst (receive_data plain_lib (data_body ''abc'' (JArr [acc_reading 1700000000])) full_session) =
     (200, Status_queued 1) \<and>
   sensor_insert_queue
     (snd (receive_data plain_lib (data_body ''abc'' (JArr [acc_reading 1700000000])) full_session)) =
     sensor_insert_queue full_session"
proof -
  have g: "fst (receive_data L body s) = (200, rep) \<longrightarrow>
      (\<exists>d n. body = Some (JObj d) \<and> py_len (payload_of d) = Inr n \<and> rep = Status_queued n \<and>
         (\<forall>rs. payload_of d = JArr rs \<longrightarrow> n = length rs))"
    by (auto dest!: receive_data_200)
  have e1: "receive_data plain_lib (data_body ''abc'' (JArr [JObj [(''timestamp'', JNum 5)]])) session =
      ((200, Status_queued 1), session\<lparr>ddl_log := [Sensor_logs_subject 7]\<rparr>)"
    by (simp add: eval_defs)
  have e2: "fst (receive_data plain_lib
      (data_body ''abc'' (JArr [acc_reading 1700000000, gyro_reading 1700000000])) session) =
      (200, Status_queued 2) \<and>
    sensor_insert_queue (snd (receive_data plain_lib
      (data_body ''abc'' (JArr [acc_reading 1700000000, gyro_reading 1700000000])) session)) =
      [session_row]"
    by (simp add: eval_defs)
  have e3: "fst (receive_data plain_lib
      (data_body ''abc'' (JArr [sample ''accelerometer'' 5, sample ''gyroscope'' 5])) session) =
      (200, Status_queued 2) \<and>
    length (sensor_insert_queue (snd (receive_data plain_lib
      (data_body ''abc'' (JArr [sample ''accelerometer'' 5, sample ''gyroscope'' 5])) session))) = 1"
    by (simp add: eval_defs)
  have e4: "fst (receive_data plain_lib (data_body ''abc'' (JArr [acc_reading 1700000000])) full_session) =
      (200, Status_queued 1) \<and>
    sensor_insert_queue
      (snd (receive_data plain_lib (data_body ''abc'' (JArr [acc_reading 1700000000])) full_session)) =
      sensor_insert_queue full_session"
    by (simp add: eval_defs full_session_def)
  from g e1 e2 e3 e4 show ?thesis by (simp add: session_def)
qed


theorem reported_count_is_payload_length_witness:
  "fst (receive_data plain_lib (data_body ''abc'' (JArr [acc_reading 1700000000])) session) =
     (200, Status_queued (length [acc_reading 1700000000])) \<and>
   data_body ''abc'' (JArr [acc_reading 1700000000]) =
     Some (JObj [(''deviceId'', JStr ''abc''), (''payload'', JArr [acc_reading 1700000000])]) \<and>
   payload_of [(''deviceId'', JStr ''abc''), (''payload'', JArr [acc_reading 1700000000])] =
     JArr [acc_reading 1700000000]"
proof -
  have r: "fst (receive_data plain_lib (data_body ''abc'' (JArr [acc_reading 1700000000])) session) =
      (200, Status_queued 1)"
    by (simp add: eval_defs)
  have p: "payload_of [(''deviceId'', JStr ''abc''), (''payload'', JArr [acc_reading 1700000000])] =
      JArr [acc_reading 1700000000]"
    by (simp add: payload_of_def has_key_def dict_get_def)
  from reported_count_is_payload_length
    [of plain_lib "data_body ''abc'' (JArr [acc_reading 1700000000])" session "Status_queued 1"] r
  obtain d n where "data_body ''abc'' (JArr [acc_reading 1700000000]) = Some (JObj d)"
    "Status_queued 1 = Status_queued n" "\<forall>rs. payload_of d = JArr rs \<longrightarrow> n = length rs"
    by blast
  with p have "(1::nat) = length [acc_reading 1700000000]"
    by (simp add: data_body_def)
  with r p show ?thesis by (simp add: data_body_def)
qed

section \<open>A reading without a timestamp\<close>

lemma dict_get_absent: "\<not> has_key d k \<Longrightarrow> dict_get d k = JNull"
proof -
  assume "\<not> has_key d k"
  then have "map_of d k = None"
    by (simp add: has_key_def map_of_eq_None_iff)
  then show ?thesis by (simp add: dict_get_def)
qed

lemma lacks_timestamp_raises:
  "lacks_timestamp r \<Longrightarrow> extract_ts L r = Inl (KeyError ''No timestamp'')"
  by (cases r) (simp_all add: lacks_timestamp_def ts_field_def py_or_def dict_get_absent)

lemma style_a_loop_fails:
  "r \<in> set rs \<Longrightarrow> extract_ts L r = Inl e \<Longrightarrow> \<exists>e' s'. style_a_loop L c rs s = (Some e', s')"
proof (induction rs arbitrary: s)
  case Nil
  then show ?case by simp
next
  case (Cons x rs)
  show ?case
  proof (cases "extract_ts L x")
    case (Inl e0)
    then show ?thesis by simp
  next
    case (Inr ts)
    with Cons.prems have "r \<in> set rs" by auto
    then have "\<exists>e' s'. style_a_loop L c rs s0 = (Some e', s')" for s0
      using Cons.IH Cons.prems(2) by blast
    with Inr show ?thesis by (cases x) simp_all
  qed
qed

lemma by_time_loop_fails:
  "r \<in> set rs \<Longrightarrow> extract_ts L r = Inl e \<Longrightarrow> \<exists>e'. by_time_loop L rs bt = Inl e'"
proof (induction rs arbitrary: bt)
  case Nil
  then show ?case by simp
next
  case (Cons x rs)
  show ?case
  proof (cases "extract_ts L x")
    case (Inl e0)
    then show ?thesis by simp
  next
    case (Inr ts)
    with Cons.prems have "r \<in> set rs" by auto
    then have "\<exists>e'. by_time_loop L rs bt0 = Inl e'" for bt0
      using Cons.IH Cons.prems(2) by blast
    with Inr show ?thesis by (cases x) (auto simp: Let_def split: sum.splits)
  qed
qed

lemma is_style_b_JArr: "\<exists>b. is_style_b (JArr rs) = Inr b"
  by (cases "JArr rs" rule: is_style_b.cases) auto

lemma process_payload_fails:
  assumes "r \<in> set rs" "extract_ts L r = Inl e"
  shows "\<exists>e'. fst (process_payload L c (JArr rs) s) = (500, Error_exc e')"
proof -
  obtain b where b: "is_style_b (JArr rs) = Inr b" using is_style_b_JArr by blast
  obtain e1 s1 where a: "style_a_loop L c rs s = (Some e1, s1)"
    using style_a_loop_fails [OF assms] by blast
  obtain e2 where bt: "by_time_loop L rs [] = Inl e2"
    using by_time_loop_fails [OF assms] by blast
  show ?thesis using b a bt by (cases b) (simp_all add: process_payload_def)
qed

lemma with_subject_fails:
  assumes "r \<in> set rs" "extract_ts L r = Inl e"
  shows "(\<exists>e'. fst (with_subject L sid (JArr rs) s) = (500, Error_exc e')) \<or>
         with_subject L sid (JArr rs) s = ((400, Error_no_config sid), s)"
  using process_payload_fails [OF assms]
  by (auto simp: with_subject_def create_subject_table_eq split: option.splits)

lemma with_subject_configured_fails:
  assumes "r \<in> set rs" "extract_ts L r = Inl e"
    and "subject_configs s sid = Some cfg" "cfg_activity cfg \<noteq> None \<or> cfg_placement cfg \<noteq> None"
  shows "\<exists>e'. fst (with_subject L sid (JArr rs) s) = (500, Error_exc e')"
  using process_payload_fails [OF assms(1,2)] assms(3,4)
  by (auto simp: with_subject_def create_subject_table_eq split: option.splits)

text \<open>
  C10. When a reading of the payload array has none of the fields \<^verbatim>\<open>"timestamp"\<close>,
  \<^verbatim>\<open>"time"\<close> and \<^verbatim>\<open>"ts"\<close>, the request is never answered 200: it is answered 500, unless
  the device check or the configuration check of lines 180 to 185 answers 400 first
  (and then nothing has changed); once both checks pass it is 500. For a Style A payload
  the readings before the failing one have been handled by then: the second reading of
  the sample request fails and the row of the first is in the queue.
\<close>

theorem missing_timestamp_fails:
  assumes "payload_of d = JArr rs" and "r \<in> set rs" and "lacks_timestamp r"
  shows
    "((\<exists>e. fst (receive_data L (Some (JObj d)) s) = (500, Error_exc e)) \<or>
      (\<exists>dev. receive_data L (Some (JObj d)) s = ((400, Error_not_mapped dev), s)) \<or>
      (\<exists>sid. receive_data L (Some (JObj d)) s = ((400, Error_no_config sid), s))) \<and>
     (\<forall>dev sid cfg.
        or_empty_lower (dict_get d ''deviceId'') = Inr dev \<and> resolve s dev = Some sid \<and>
        subject_configs s sid = Some cfg \<and>
        (cfg_activity cfg \<noteq> None \<or> cfg_placement cfg \<noteq> None) \<longrightarrow>
        fst (fst (receive_data L (Some (JObj d)) s)) = 500) \<and>
     fst (receive_data plain_lib (data_body ''abc'' (JArr [acc_reading 1700000000, JObj []])) session) =
       (500, Error_exc (KeyError ''No timestamp'')) \<and>
     sensor_insert_queue session = [] \<and>
     sensor_insert_queue
       (snd (receive_data plain_lib (data_body ''abc'' (JArr [acc_reading 1700000000, JObj []])) session)) =
       [session_row]"
proof -
  from assms(3) have x: "extract_ts L r = Inl (KeyError ''No timestamp'')"
    by (rule lacks_timestamp_raises)
  have a: "(\<exists>e. fst (receive_data L (Some (JObj d)) s) = (500, Error_exc e)) \<or>
      (\<exists>dev. receive_data L (Some (JObj d)) s = ((400, Error_not_mapped dev), s)) \<or>
      (\<exists>sid. receive_data L (Some (JObj d)) s = ((400, Error_no_config sid), s))"
  proof (cases "or_empty_lower (dict_get d ''deviceId'')")
    case (Inl e)
    then show ?thesis by (simp add: receive_data_def)
  next
    case (Inr dev)
    show ?thesis
    proof (cases "resolve s dev")
      case None
      with Inr show ?thesis by (simp add: receive_data_def)
    next
      case (Some sid)
      with Inr assms(1) have "receive_data L (Some (JObj d)) s = with_subject L sid (JArr rs) s"
        by (simp add: receive_data_def)
      with with_subject_fails [OF assms(2) x, of sid s] show ?thesis by auto
    qed
  qed
  have b: "\<forall>dev sid cfg.
        or_empty_lower (dict_get d ''deviceId'') = Inr dev \<and> resolve s dev = Some sid \<and>
        subject_configs s sid = Some cfg \<and>
        (cfg_activity cfg \<noteq> None \<or> cfg_placement cfg \<noteq> None) \<longrightarrow>
        fst (fst (receive_data L (Some (JObj d)) s)) = 500"
  proof (intro allI impI)
    fix dev sid cfg
    assume h: "or_empty_lower (dict_get d ''deviceId'') = Inr dev \<and> resolve s dev = Some sid \<and>
        subject_configs s sid = Some cfg \<and>
        (cfg_activity cfg \<noteq> None \<or> cfg_placement cfg \<noteq> None)"
    then obtain e' where "fst (with_subject L sid (JArr rs) s) = (500, Error_exc e')"
      using with_subject_configured_fails [OF assms(2) x, of s sid cfg] by blast
    with h assms(1) show "fst (fst (receive_data L (Some (JObj d)) s)) = 500"
      by (simp add: receive_data_def)
  qed
  have c: "fst (receive_data plain_lib (data_body ''abc'' (JArr [acc_reading 1700000000, JObj []])) session) =
       (500, Error_exc (KeyError ''No timestamp'')) \<and>
     sensor_insert_queue session = [] \<and>
     sensor_insert_queue
       (snd (receive_data plain_lib (data_body ''abc'' (JArr [acc_reading 1700000000, JObj []])) session)) =
       [session_row]"
    by (simp add: eval_defs)
  from a b c show ?thesis by blast
qed

theorem missing_timestamp_fails_witness:
  "payload_of [(''deviceId'', JStr ''abc''), (''payload'', JArr [acc_reading 1700000000, JObj []])] =
     JArr [acc_reading 1700000000, JObj []] \<and>
   JObj [] \<in> set [acc_reading 1700000000, JObj []] \<and>
   lacks_timestamp (JObj []) \<and>
   or_empty_lower (dict_get [(''deviceId'', JStr ''abc''),
     (''payload'', JArr [acc_reading 1700000000, JObj []])] ''deviceId'') = Inr ''abc'' \<and>
   resolve session ''abc'' = Some 7 \<and>
   subject_configs session 7 =
     Some \<lparr>cfg_activity = Some (JStr ''idle''), cfg_placement = Some (JStr ''back'')\<rparr> \<and>
   fst (fst (receive_data plain_lib
     (Some (JObj [(''deviceId'', JStr ''abc''),
        (''payload'', JArr [acc_reading 1700000000, JObj []])])) session)) = 500"
proof -
  let ?d = "[(''deviceId'', JStr ''abc''), (''payload'', JArr [acc_reading 1700000000, JObj []])]"
  have p: "payload_of ?d = JArr [acc_reading 1700000000, JObj []]"
    by (simp add: payload_of_def has_key_def dict_get_def)
  have m: "JObj [] \<in> set [acc_reading 1700000000, JObj []]"
    by simp
  have l: "lacks_timestamp (JObj [])"
    by (simp add: lacks_timestamp_def has_key_def)
  have g: "or_empty_lower (dict_get ?d ''deviceId'') = Inr ''abc'' \<and>
      resolve session ''abc'' = Some 7 \<and>
      subject_configs session 7 =
        Some \<lparr>cfg_activity = Some (JStr ''idle''), cfg_placement = Some (JStr ''back'')\<rparr>"
    by (simp add: eval_defs)
  from missing_timestamp_fails [OF p m l, of plain_lib session] g
  have "fst (fst (receive_data plain_lib (Some (JObj ?d)) session)) = 500"
    by auto
  with p m l g show ?thesis by simp
qed

text \<open>
  The claim as stated fails where a check answers first: the device \<^verbatim>\<open>nobody\<close> is not
  mapped, and its request is answered 400 although its only reading has no timestamp.
\<close>

theorem missing_timestamp_unmapped_device:
  "lacks_timestamp (JObj []) \<and>
   receive_data plain_lib (data_body ''nobody'' (JArr [JObj []])) session =
     ((400, Error_not_mapped ''nobody''), session)"
  by (simp add: eval_defs lacks_timestamp_def)


section \<open>Statements sent to the database by POST /data\<close>













section \<open>Requests answered 400\<close>












section \<open>The records a payload gives\<close>
























end
